theory Spec2Isabelle
  imports Complex_Main
begin

section \<open>The knob control of primeng (packages/primeng/src/knob/knob.ts)\<close>

text \<open>
  A shallow embedding of the class \<open>Knob\<close>. JavaScript numbers are modelled as real
  numbers: arithmetic is exact, \<open>Math.round x\<close> is \<open>\<lfloor>x + 1/2\<rfloor>\<close> (which is HOL's
  \<open>round\<close>), and \<open>Math.atan2\<close> is the two-argument arctangent with \<open>atan2 0 0 = 0\<close>.
  NaN, the infinities, signed zeros and rounding error are outside the model.

  The fields of the class that the event handlers read or write are the fields of the
  record \<open>knob\<close>. A field that may hold \<open>null\<close> or \<open>undefined\<close> is an \<open>option\<close>.
  Names that clash with constants or commands of HOL carry the suffix \<open>_k\<close>
  (\<open>min_k\<close>, \<open>max_k\<close>, \<open>size_k\<close>, \<open>value_k\<close>); the getter \<open>_value\<close> is \<open>value_getter\<close>.
\<close>

subsection \<open>Effects on the collaborators\<close>

text \<open>
  Calls that leave the class are recorded, in order, in the field \<open>effects\<close>:
  \<open>event.preventDefault()\<close>, \<open>this.writeModelValue(v)\<close> (inherited from the base class),
  \<open>this.onModelChange(v)\<close> (the callback registered by the forms binding),
  \<open>this.onChange.emit(v)\<close>, \<open>this.cd.markForCheck()\<close>, and each call of a function that
  \<open>renderer.listen\<close> returned.
\<close>

datatype effect =
    PreventDefault
  | WriteModelValue "real option"
  | ModelChange real
  | ChangeEmit real
  | MarkForCheck
  | Unlisten nat

record knob =
  valueTemplate :: string
  size_k :: real
  min_k :: real
  max_k :: real
  step :: real
  readonly :: bool
  disabled :: bool
  value_k :: "real option"
  windowMouseMoveListener :: "nat option"
  windowMouseUpListener :: "nat option"
  windowTouchMoveListener :: "nat option"
  windowTouchEndListener :: "nat option"
  window_listeners :: "(nat \<times> string) list"
  next_id :: nat
  effects :: "effect list"

text \<open>
  The field initialisers of the class. The \<open>@Input\<close> fields (\<open>valueTemplate\<close>, \<open>size\<close>,
  \<open>min\<close>, \<open>max\<close>, \<open>step\<close>, \<open>readonly\<close>, and \<open>disabled\<close> of the base class) are
  overwritten by the host after construction; \<open>value\<close> is not an input.
\<close>

definition initial_knob :: knob where
  "initial_knob =
     \<lparr> valueTemplate = ''{value}'', size_k = 100, min_k = 0, max_k = 100, step = 1,
       readonly = False, disabled = False, value_k = Some 0,
       windowMouseMoveListener = None, windowMouseUpListener = None,
       windowTouchMoveListener = None, windowTouchEndListener = None,
       window_listeners = [], next_id = 0, effects = [] \<rparr>"

definition minRadians :: real where "minRadians = (4 * pi) / 3"
definition maxRadians :: real where "maxRadians = - pi / 3"

definition emit :: "effect \<Rightarrow> knob \<Rightarrow> knob" where
  "emit e st = st\<lparr>effects := effects st @ [e]\<rparr>"

definition enabled :: "knob \<Rightarrow> bool" where
  \<comment> \<open>the guard \<open>!this.disabled() && !this.readonly\<close> of every handler\<close>
  "enabled st \<longleftrightarrow> \<not> disabled st \<and> \<not> readonly st"

definition value_getter :: "knob \<Rightarrow> real" where
  \<comment> \<open>\<open>get _value()\<close>: \<open>this.value != null ? this.value : this.min\<close>\<close>
  "value_getter st = (case value_k st of Some v \<Rightarrow> v | None \<Rightarrow> min_k st)"

subsection \<open>The renderer\<close>

text \<open>
  Modelled from the spec: \<open>renderer.listen(window, name, callback)\<close> of the host framework
  registers a listener on the window and returns the function that detaches it.
  The window's listeners are the list \<open>window_listeners\<close> of registrations (identifier,
  event name); the returned function is named by the identifier of its registration.
  Calling it removes that registration, and calling it again removes nothing more.
\<close>

definition renderer_listen :: "string \<Rightarrow> knob \<Rightarrow> nat \<times> knob" where
  "renderer_listen name st =
     (next_id st,
      st\<lparr>window_listeners := window_listeners st @ [(next_id st, name)],
         next_id := Suc (next_id st)\<rparr>)"

definition call_listener :: "nat \<Rightarrow> knob \<Rightarrow> knob" where
  "call_listener h st =
     emit (Unlisten h) (st\<lparr>window_listeners := filter (\<lambda>r. fst r \<noteq> h) (window_listeners st)\<rparr>)"

subsection \<open>Geometry\<close>

definition atan2 :: "real \<Rightarrow> real \<Rightarrow> real" where
  \<comment> \<open>\<open>Math.atan2(y, x)\<close>\<close>
  "atan2 y x =
     (if 0 < x then arctan (y / x)
      else if x < 0 \<and> 0 \<le> y then arctan (y / x) + pi
      else if x < 0 \<and> y < 0 then arctan (y / x) - pi
      else if 0 < y then pi / 2
      else if y < 0 then - pi / 2
      else 0)"

definition mapRange :: "real \<Rightarrow> real \<Rightarrow> real \<Rightarrow> real \<Rightarrow> real \<Rightarrow> real" where
  "mapRange x inMin inMax outMin outMax =
     ((x - inMin) * (outMax - outMin)) / (inMax - inMin) + outMin"




subsection \<open>Value updates\<close>

definition mappedValue :: "knob \<Rightarrow> real \<Rightarrow> real \<Rightarrow> real option" where
  \<comment> \<open>the branches of \<open>updateModel\<close> that assign \<open>mappedValue\<close>; \<open>None\<close> is the \<open>else return\<close>\<close>
  "mappedValue st angle start =
     (if angle > maxRadians
        then Some (mapRange angle minRadians maxRadians (min_k st) (max_k st))
      else if angle < start
        then Some (mapRange (angle + 2 * pi) minRadians maxRadians (min_k st) (max_k st))
      else None)"

definition commit :: "real \<Rightarrow> knob \<Rightarrow> knob" where
  \<comment> \<open>\<open>this.value = v\<close> followed by the three calls that end \<open>updateModel\<close> and
      \<open>updateModelValue\<close>, each on \<open>this.value\<close>\<close>
  "commit v st =
     emit (ChangeEmit v)
       (emit (ModelChange v)
          (emit (WriteModelValue (Some v)) (st\<lparr>value_k := Some v\<rparr>)))"

definition updateModel :: "real \<Rightarrow> real \<Rightarrow> knob \<Rightarrow> knob" where
  "updateModel angle start st =
     (case mappedValue st angle start of
        None \<Rightarrow> st
      | Some m \<Rightarrow>
          (let newValue = real_of_int (round ((m - min_k st) / step st)) * step st + min_k st
           in commit newValue st))"

definition updateValue :: "real \<Rightarrow> real \<Rightarrow> knob \<Rightarrow> knob" where
  "updateValue offsetX offsetY st =
     (let dx = offsetX - size_k st / 2;
          dy = size_k st / 2 - offsetY;
          angle = atan2 dy dx;
          start = - pi / 2 - pi / 6
      in updateModel angle start st)"

definition onClick :: "real \<Rightarrow> real \<Rightarrow> knob \<Rightarrow> knob" where
  "onClick offsetX offsetY st =
     (if enabled st then updateValue offsetX offsetY st else st)"

definition onMouseMove :: "real \<Rightarrow> real \<Rightarrow> knob \<Rightarrow> knob" where
  "onMouseMove offsetX offsetY st =
     (if enabled st then emit PreventDefault (updateValue offsetX offsetY st) else st)"

definition updateModelValue :: "real \<Rightarrow> knob \<Rightarrow> knob" where
  "updateModelValue newValue st =
     (if newValue > max_k st then commit (max_k st) st
      else if newValue < min_k st then commit (min_k st) st
      else commit newValue st)"

definition onKeyDown :: "string \<Rightarrow> knob \<Rightarrow> knob" where
  \<comment> \<open>the argument is \<open>event.code\<close>\<close>
  "onKeyDown code st =
     (if enabled st then
        (if code = ''ArrowRight'' \<or> code = ''ArrowUp''
           then updateModelValue (value_getter st + 1) (emit PreventDefault st)
         else if code = ''ArrowLeft'' \<or> code = ''ArrowDown''
           then updateModelValue (value_getter st - 1) (emit PreventDefault st)
         else if code = ''Home''
           then updateModelValue (min_k st) (emit PreventDefault st)
         else if code = ''End''
           then updateModelValue (max_k st) (emit PreventDefault st)
         else if code = ''PageUp''
           then updateModelValue (value_getter st + 10) (emit PreventDefault st)
         else if code = ''PageDown''
           then updateModelValue (value_getter st - 10) (emit PreventDefault st)
         else st)
      else st)"

definition writeValue :: "real option \<Rightarrow> knob \<Rightarrow> knob" where
  "writeValue v st =
     emit MarkForCheck (emit (WriteModelValue v) (st\<lparr>value_k := v\<rparr>))"

subsection \<open>Gestures\<close>

definition onMouseDown :: "knob \<Rightarrow> knob" where
  "onMouseDown st =
     (if enabled st then
        (let (h1, st1) = renderer_listen ''mousemove'' st;
             st2 = st1\<lparr>windowMouseMoveListener := Some h1\<rparr>;
             (h2, st3) = renderer_listen ''mouseup'' st2;
             st4 = st3\<lparr>windowMouseUpListener := Some h2\<rparr>
         in emit PreventDefault st4)
      else st)"

definition onMouseUp :: "knob \<Rightarrow> knob" where
  "onMouseUp st =
     (if enabled st then
        (let st1 = (case windowMouseMoveListener st of
                      Some h \<Rightarrow> (call_listener h st)\<lparr>windowMouseUpListener := None\<rparr>
                    | None \<Rightarrow> st);
             st2 = (case windowMouseUpListener st1 of
                      Some h \<Rightarrow> (call_listener h st1)\<lparr>windowMouseMoveListener := None\<rparr>
                    | None \<Rightarrow> st1)
         in emit PreventDefault st2)
      else st)"

definition onTouchStart :: "knob \<Rightarrow> knob" where
  "onTouchStart st =
     (if enabled st then
        (let (h1, st1) = renderer_listen ''touchmove'' st;
             st2 = st1\<lparr>windowTouchMoveListener := Some h1\<rparr>;
             (h2, st3) = renderer_listen ''touchend'' st2;
             st4 = st3\<lparr>windowTouchEndListener := Some h2\<rparr>
         in emit PreventDefault st4)
      else st)"

definition onTouchEnd :: "knob \<Rightarrow> knob" where
  "onTouchEnd st =
     (if enabled st then
        (let st1 = (case windowTouchMoveListener st of
                      Some h \<Rightarrow> call_listener h st
                    | None \<Rightarrow> st);
             st2 = (case windowTouchEndListener st1 of
                      Some h \<Rightarrow> call_listener h st1
                    | None \<Rightarrow> st1)
         in emit PreventDefault
              (st2\<lparr>windowTouchMoveListener := None, windowTouchEndListener := None\<rparr>))
      else st)"

subsection \<open>Display\<close>

fun replace_first :: "string \<Rightarrow> string \<Rightarrow> string \<Rightarrow> string" where
  \<comment> \<open>\<open>s.replace(pat, rep)\<close> with a string pattern: the first occurrence only.
      The replacement is inserted as it is, which is what \<open>replace\<close> does with a
      replacement that has no \<open>$\<close> in it.\<close>
  "replace_first pat rep [] = (if pat = [] then rep else [])"
| "replace_first pat rep (c # cs) =
     (if take (length pat) (c # cs) = pat then rep @ drop (length pat) (c # cs)
      else c # replace_first pat rep cs)"

definition valueToDisplay :: "(real \<Rightarrow> string) \<Rightarrow> knob \<Rightarrow> string" where
  \<comment> \<open>the first argument is \<open>Number.prototype.toString\<close>\<close>
  "valueToDisplay toString st =
     replace_first ''{value}'' (toString (value_getter st)) (valueTemplate st)"

definition occurs_at :: "string \<Rightarrow> string \<Rightarrow> nat \<Rightarrow> bool" where
  \<comment> \<open>\<open>pat\<close> occurs in \<open>s\<close> at index \<open>i\<close>\<close>
  "occurs_at pat s i \<longleftrightarrow> take (length pat) (drop i s) = pat"

subsection \<open>The round trip from a value to its circle point and back\<close>


section \<open>Properties\<close>

subsection \<open>The mouse gesture\<close>

text \<open>
  What \<open>onMouseUp\<close> does when the handle of the move listener is set: it calls that
  handle, clears the handle of the \<^emph>\<open>up\<close> listener, and finds nothing left to call in its
  second test. The up listener is never detached and the move handle is never cleared.
\<close>

lemma onMouseUp_with_move_handle:
  assumes "enabled st" and "windowMouseMoveListener st = Some h"
  shows "effects (onMouseUp st) = effects st @ [Unlisten h, PreventDefault]"
    and "windowMouseMoveListener (onMouseUp st) = Some h"
    and "windowMouseUpListener (onMouseUp st) = None"
    and "window_listeners (onMouseUp st) = filter (\<lambda>r. fst r \<noteq> h) (window_listeners st)"
  using assms by (simp_all add: onMouseUp_def call_listener_def emit_def)

text \<open>
  The touch gesture is written the other way: \<open>onTouchEnd\<close> calls both handles and then
  clears both, so that a touch gesture leaves no listener and a second \<open>onTouchEnd\<close> calls
  nothing.
\<close>

lemma onTouchEnd_releases_both:
  "window_listeners (onTouchEnd (onTouchStart initial_knob)) = [] \<and>
   windowTouchMoveListener (onTouchEnd (onTouchStart initial_knob)) = None \<and>
   windowTouchEndListener (onTouchEnd (onTouchStart initial_knob)) = None \<and>
   effects (onTouchEnd (onTouchEnd (onTouchStart initial_knob)))
     = [PreventDefault, Unlisten 0, Unlisten 1, PreventDefault, PreventDefault]"
  by (simp add: onTouchEnd_def onTouchStart_def initial_knob_def renderer_listen_def
      call_listener_def emit_def enabled_def)

text \<open>
  Claim C1 (gesture lifecycle): after \<open>onMouseDown\<close> two window listeners are registered,
  after the matching \<open>onMouseUp\<close> none is, and a second \<open>onMouseUp\<close> releases nothing
  twice. The code does the first part only. On a fresh control, after \<open>onMouseDown\<close> and
  \<open>onMouseUp\<close> the \<open>mouseup\<close> listener (registration 1) is still registered and the move
  handle is still set, and a second \<open>onMouseUp\<close> calls the move handle (registration 0)
  a second time.
\<close>

theorem onMouseUp_leaves_listener_registered:
  "window_listeners (onMouseDown initial_knob) = [(0, ''mousemove''), (1, ''mouseup'')] \<and>
   window_listeners (onMouseUp (onMouseDown initial_knob)) = [(1, ''mouseup'')] \<and>
   windowMouseMoveListener (onMouseUp (onMouseDown initial_knob)) = Some 0 \<and>
   windowMouseUpListener (onMouseUp (onMouseDown initial_knob)) = None \<and>
   effects (onMouseUp (onMouseUp (onMouseDown initial_knob)))
     = [PreventDefault, Unlisten 0, PreventDefault, Unlisten 0, PreventDefault]"
  by (simp add: onMouseUp_def onMouseDown_def initial_knob_def renderer_listen_def
      call_listener_def emit_def enabled_def)

text \<open>
  Claim C2 as stated (a mousedown during an active mouse gesture is ignored) fails:
  after one \<open>onMouseDown\<close> the control is enabled and holds the handles 0 and 1; a second
  \<open>onMouseDown\<close> registers two more listeners and replaces both handles.
\<close>

theorem onMouseDown_while_dragging_registers_again:
  "enabled (onMouseDown initial_knob) \<and>
   windowMouseMoveListener (onMouseDown initial_knob) = Some 0 \<and>
   windowMouseUpListener (onMouseDown initial_knob) = Some 1 \<and>
   window_listeners (onMouseDown (onMouseDown initial_knob))
     = [(0, ''mousemove''), (1, ''mouseup''), (2, ''mousemove''), (3, ''mouseup'')] \<and>
   windowMouseMoveListener (onMouseDown (onMouseDown initial_knob)) = Some 2 \<and>
   windowMouseUpListener (onMouseDown (onMouseDown initial_knob)) = Some 3"
  by (simp add: onMouseDown_def initial_knob_def renderer_listen_def emit_def enabled_def)

text \<open>
  Claim C2, amended: on a control that is neither disabled nor read-only, every mousedown,
  whether or not a mouse gesture is active, registers two further window listeners
  (\<open>mousemove\<close>, then \<open>mouseup\<close>), which come after the ones already registered, and stores
  their two handles in place of the earlier ones; a mousedown is ignored, leaving the whole
  state as it was, exactly when the control is disabled or read-only.
\<close>

theorem onMouseDown_registers_two_listeners:
  "(enabled st \<longrightarrow>
      window_listeners (onMouseDown st)
        = window_listeners st @ [(next_id st, ''mousemove''), (Suc (next_id st), ''mouseup'')] \<and>
      windowMouseMoveListener (onMouseDown st) = Some (next_id st) \<and>
      windowMouseUpListener (onMouseDown st) = Some (Suc (next_id st))) \<and>
   (\<not> enabled st \<longrightarrow> onMouseDown st = st)"
  by (simp add: onMouseDown_def renderer_listen_def emit_def)

theorem onMouseDown_registers_two_listeners_witness:
  "enabled (onMouseDown initial_knob) \<and>
   window_listeners (onMouseDown (onMouseDown initial_knob))
     = window_listeners (onMouseDown initial_knob) @ [(2, ''mousemove''), (3, ''mouseup'')] \<and>
   \<not> enabled (initial_knob\<lparr>readonly := True\<rparr>) \<and>
   onMouseDown (initial_knob\<lparr>readonly := True\<rparr>) = initial_knob\<lparr>readonly := True\<rparr>"
proof -
  have e: "enabled (onMouseDown initial_knob)"
    by (simp add: onMouseDown_def initial_knob_def renderer_listen_def emit_def enabled_def)
  have n: "next_id (onMouseDown initial_knob) = 2"
    by (simp add: onMouseDown_def initial_knob_def renderer_listen_def emit_def enabled_def)
  have d: "\<not> enabled (initial_knob\<lparr>readonly := True\<rparr>)"
    by (simp add: enabled_def)
  show ?thesis
    using e n d
      onMouseDown_registers_two_listeners [of "onMouseDown initial_knob"]
      onMouseDown_registers_two_listeners [of "initial_knob\<lparr>readonly := True\<rparr>"]
    by simp
qed

subsection \<open>The stored value and its bounds\<close>

text \<open>
  The keyboard path clamps: whatever the candidate, \<open>updateModelValue\<close> stores a value
  between \<open>min\<close> and \<open>max\<close>.
\<close>

lemma updateModelValue_in_range:
  assumes "min_k st \<le> max_k st"
  shows "\<exists>w. value_k (updateModelValue newValue st) = Some w \<and> min_k st \<le> w \<and> w \<le> max_k st"
  using assms by (simp add: updateModelValue_def commit_def emit_def)

text \<open>
  Claim C3 (for \<open>min < max\<close> and \<open>step > 0\<close>, every update through \<open>updateModel\<close> or
  \<open>updateModelValue\<close> leaves \<open>min \<le> value \<le> max\<close>) fails on the angle path, which rounds to
  the step grid and does not clamp. With \<open>min = 0\<close>, \<open>max = 100\<close>, \<open>size = 100\<close> and
  \<open>step = 60\<close>, a click at offset (60, 60) gives the angle \<open>- \<pi>/4\<close>, which is above
  \<open>maxRadians\<close> and maps to 95; \<open>Math.round (95 / 60) = 2\<close>, and the value stored is 120.
\<close>

theorem updateModel_value_above_max:
  "min_k (initial_knob\<lparr>step := 60\<rparr>) < max_k (initial_knob\<lparr>step := 60\<rparr>) \<and>
   0 < step (initial_knob\<lparr>step := 60\<rparr>) \<and>
   enabled (initial_knob\<lparr>step := 60\<rparr>) \<and>
   value_k (onClick 60 60 (initial_knob\<lparr>step := 60\<rparr>)) = Some 120 \<and>
   max_k (onClick 60 60 (initial_knob\<lparr>step := 60\<rparr>)) = 100"
proof -
  have a: "atan2 (100 / 2 - 60) (60 - 100 / 2) = - pi / 4"
    by (simp add: atan2_def arctan_minus arctan_one)
  have m: "mapRange (- pi / 4) minRadians maxRadians 0 100 = 95"
    by (simp add: mapRange_def minRadians_def maxRadians_def field_simps)
  have g: "- pi / 4 > maxRadians"
    by (simp add: maxRadians_def)
  have r: "round ((95 - 0) / 60 :: real) = 2"
    by (simp add: round_def)
  show ?thesis
    using a m g r
    by (simp add: onClick_def updateValue_def updateModel_def mappedValue_def commit_def
        initial_knob_def emit_def enabled_def Let_def)
qed

text \<open>
  Claim C5 (dead gap): for every angle strictly between \<open>start = - \<pi>/2 - \<pi>/6\<close> and
  \<open>maxRadians = - \<pi>/3\<close> no value is mapped, and \<open>updateModel\<close> returns the state it was
  given: the stored value is the same and nothing is added to the effects, so that no
  change notification is sent.
\<close>

theorem updateModel_dead_gap_noop:
  assumes "- pi / 2 - pi / 6 < angle" and "angle < maxRadians"
  shows "mappedValue st angle (- pi / 2 - pi / 6) = None \<and>
         updateModel angle (- pi / 2 - pi / 6) st = st \<and>
         value_k (updateModel angle (- pi / 2 - pi / 6) st) = value_k st \<and>
         effects (updateModel angle (- pi / 2 - pi / 6) st) = effects st"
  using assms by (simp add: updateModel_def mappedValue_def)

theorem updateModel_dead_gap_noop_witness:
  "- pi / 2 - pi / 6 < - pi / 2 \<and> - pi / 2 < maxRadians \<and>
   mappedValue initial_knob (- pi / 2) (- pi / 2 - pi / 6) = None \<and>
   updateModel (- pi / 2) (- pi / 2 - pi / 6) initial_knob = initial_knob"
proof -
  have h1: "- pi / 2 - pi / 6 < - pi / 2" by simp
  have h2: "- pi / 2 < maxRadians" by (simp add: maxRadians_def)
  show ?thesis
    using h1 h2 updateModel_dead_gap_noop [OF h1 h2, of initial_knob] by simp
qed

text \<open>A click whose angle is in the gap changes nothing.\<close>

lemma onClick_dead_gap:
  assumes "- pi / 2 - pi / 6 < atan2 (size_k st / 2 - offsetY) (offsetX - size_k st / 2)"
    and "atan2 (size_k st / 2 - offsetY) (offsetX - size_k st / 2) < maxRadians"
  shows "onClick offsetX offsetY st = st"
  using assms by (simp add: onClick_def updateValue_def updateModel_def mappedValue_def Let_def)

text \<open>
  Claim C6 (keyboard), for a control that is neither disabled nor read-only and whose
  configuration has \<open>min \<le> max\<close> (the specification's configuration has \<open>min < max\<close>):
  from the value \<open>min\<close>, ArrowUp gives \<open>min + 1\<close>, or \<open>max\<close> if \<open>min + 1 > max\<close>; Home gives
  \<open>min\<close> and End gives \<open>max\<close> from any value; PageDown from \<open>min\<close> stays at \<open>min\<close>; PageUp
  adds 10 and PageDown subtracts 10, and the result is then clamped to \<open>[min, max]\<close>.
\<close>

theorem onKeyDown_values:
  assumes "enabled st" and "min_k st \<le> max_k st"
  shows "(value_getter st = min_k st \<longrightarrow>
            value_k (onKeyDown ''ArrowUp'' st)
              = Some (if min_k st + 1 > max_k st then max_k st else min_k st + 1))
       \<and> value_k (onKeyDown ''Home'' st) = Some (min_k st)
       \<and> value_k (onKeyDown ''End'' st) = Some (max_k st)
       \<and> (value_getter st = min_k st \<longrightarrow>
            value_k (onKeyDown ''PageDown'' st) = Some (min_k st))
       \<and> value_k (onKeyDown ''PageUp'' st)
            = Some (if value_getter st + 10 > max_k st then max_k st
                    else if value_getter st + 10 < min_k st then min_k st
                    else value_getter st + 10)
       \<and> value_k (onKeyDown ''PageDown'' st)
            = Some (if value_getter st - 10 > max_k st then max_k st
                    else if value_getter st - 10 < min_k st then min_k st
                    else value_getter st - 10)"
  using assms
  by (simp add: onKeyDown_def updateModelValue_def commit_def emit_def)

theorem onKeyDown_values_witness:
  "enabled initial_knob \<and> min_k initial_knob \<le> max_k initial_knob \<and>
   value_getter initial_knob = min_k initial_knob \<and>
   value_k (onKeyDown ''ArrowUp'' initial_knob) = Some 1 \<and>
   value_k (onKeyDown ''Home'' initial_knob) = Some 0 \<and>
   value_k (onKeyDown ''End'' initial_knob) = Some 100 \<and>
   value_k (onKeyDown ''PageDown'' initial_knob) = Some 0 \<and>
   value_k (onKeyDown ''PageUp'' initial_knob) = Some 10"
proof -
  have e: "enabled initial_knob" by (simp add: enabled_def initial_knob_def)
  have o: "min_k initial_knob \<le> max_k initial_knob" by (simp add: initial_knob_def)
  have g: "value_getter initial_knob = 0" by (simp add: value_getter_def initial_knob_def)
  have c: "min_k initial_knob = 0" "max_k initial_knob = 100" by (simp_all add: initial_knob_def)
  show ?thesis
    using e o onKeyDown_values [OF e o] by (simp add: g c)
qed

text \<open>
  Claim C7: with \<open>min = 0\<close>, \<open>max = 100\<close>, \<open>step = 1\<close> and \<open>size = 100\<close>, a click at the
  offset (50, 50) has \<open>dx = dy = 0\<close> and the angle \<open>atan2 0 0 = 0\<close>, which is above
  \<open>maxRadians\<close>; \<open>mapRange 0 (4\<pi>/3) (- \<pi>/3) 0 100\<close> is 80, and 80 is the value stored,
  whatever the value was before.
\<close>

theorem onClick_centre_stores_80:
  "atan2 (100 / 2 - 50) (50 - 100 / 2) = 0 \<and>
   0 > maxRadians \<and>
   mapRange 0 minRadians maxRadians 0 100 = 80 \<and>
   value_k (onClick 50 50 (initial_knob\<lparr>value_k := v\<rparr>)) = Some 80"
proof -
  have a: "atan2 (100 / 2 - 50) (50 - 100 / 2) = 0"
    by (simp add: atan2_def)
  have g: "0 > maxRadians"
    by (simp add: maxRadians_def)
  have m: "mapRange 0 minRadians maxRadians 0 100 = 80"
    by (simp add: mapRange_def minRadians_def maxRadians_def field_simps)
  have "value_k (onClick 50 50 (initial_knob\<lparr>value_k := v\<rparr>)) = Some 80"
    using a g m
    by (simp add: onClick_def updateValue_def updateModel_def mappedValue_def commit_def
        initial_knob_def emit_def enabled_def Let_def)
  then show ?thesis using a g m by simp
qed

text \<open>
  Claim C8 as stated (with no value set the effective value is \<open>min\<close>, and the value
  created at initialisation defaults to \<open>min\<close>) fails: the field initialiser is
  \<open>value = 0\<close>, and \<open>min\<close> is an input. A control given \<open>min = 5\<close> and no value has the
  effective value 0.
\<close>

theorem value_getter_initial_not_min:
  "value_getter (initial_knob\<lparr>min_k := 5\<rparr>) = 0 \<and>
   value_getter (initial_knob\<lparr>min_k := 5\<rparr>) \<noteq> min_k (initial_knob\<lparr>min_k := 5\<rparr>)"
  by (simp add: value_getter_def initial_knob_def)

text \<open>
  Claim C8, amended: when the stored value is \<open>null\<close> or \<open>undefined\<close>, the effective value
  \<open>_value\<close> is \<open>min\<close>; the getter always yields a number. The value created at
  initialisation is 0, whatever \<open>min\<close> is given, so that it is \<open>min\<close> for the default
  \<open>min = 0\<close>.
\<close>

theorem value_getter_null_is_min:
  "(value_k st = None \<longrightarrow> value_getter st = min_k st) \<and>
   value_k initial_knob = Some 0 \<and>
   value_getter (initial_knob\<lparr>min_k := m\<rparr>) = 0 \<and>
   value_getter initial_knob = min_k initial_knob"
  by (simp add: value_getter_def initial_knob_def)

theorem value_getter_null_is_min_witness:
  "value_k (initial_knob\<lparr>min_k := 5, value_k := None\<rparr>) = None \<and>
   value_getter (initial_knob\<lparr>min_k := 5, value_k := None\<rparr>) = 5"
  using value_getter_null_is_min [of "initial_knob\<lparr>min_k := 5, value_k := None\<rparr>"]
  by simp

text \<open>
  Claim C9: \<open>writeValue v\<close> stores \<open>v\<close>, passes it to \<open>writeModelValue\<close> and asks for a
  check of the view (\<open>markForCheck\<close>); these two calls are all that it adds to the effects,
  so neither the model-change callback nor \<open>onChange\<close> fires, and every other field
  (listener handles, registrations, configuration) is as before.
\<close>

theorem writeValue_frame:
  "writeValue v st
     = st\<lparr>value_k := v, effects := effects st @ [WriteModelValue v, MarkForCheck]\<rparr> \<and>
   value_k (writeValue v st) = v \<and>
   effects (writeValue v st) = effects st @ [WriteModelValue v, MarkForCheck]"
  by (simp add: writeValue_def emit_def)

subsection \<open>The angle of a point on a circle\<close>










subsection \<open>Bounds of the angle path\<close>

text \<open>
  What the angle path keeps: the angle of a click is in \<open>(- \<pi>, \<pi>]\<close>, the mapped value is
  strictly between \<open>min\<close> and \<open>max\<close>, and the value stored after rounding to a step is at
  least \<open>min\<close> and less than \<open>max + step / 2\<close>.
\<close>

lemma atan2_range: "- pi < atan2 y x \<and> atan2 y x \<le> pi"
proof -
  have b: "- (pi / 2) < arctan (y / x)" "arctan (y / x) < pi / 2"
    by (rule arctan_lbound, rule arctan_ubound)
  consider "0 < x" | "x < 0 \<and> 0 \<le> y" | "x < 0 \<and> y < 0" | "x = 0"
    by linarith
  then show ?thesis
  proof cases
    case 1
    then show ?thesis using b pi_gt_zero by (simp add: atan2_def)
  next
    case 2
    then have "y / x \<le> 0" by (simp add: divide_nonneg_neg)
    then have "arctan (y / x) \<le> 0" by simp
    then show ?thesis using 2 b pi_gt_zero by (simp add: atan2_def)
  next
    case 3
    then have "0 < y / x" by (simp add: divide_neg_neg)
    then have "0 < arctan (y / x)" by simp
    then show ?thesis using 3 b pi_gt_zero by (simp add: atan2_def)
  next
    case 4
    consider "0 < y" | "y < 0" | "y = 0" by linarith
    then show ?thesis
    proof cases
      case 1
      then have "atan2 y x = pi / 2" using 4 by (simp add: atan2_def)
      then show ?thesis using pi_gt_zero by linarith
    next
      case 2
      then have "atan2 y x = - pi / 2" using 4 by (simp add: atan2_def)
      then show ?thesis using pi_gt_zero by linarith
    next
      case 3
      then have "atan2 y x = 0" using 4 by (simp add: atan2_def)
      then show ?thesis using pi_gt_zero by linarith
    qed
  qed
qed

lemma mapRange_angle:
  "mapRange a minRadians maxRadians lo hi = lo + (minRadians - a) / (5 * pi / 3) * (hi - lo)"
  by (simp add: mapRange_def minRadians_def maxRadians_def field_simps)

lemma mappedValue_bounds:
  assumes "min_k st < max_k st" and "- pi \<le> angle" and "angle \<le> pi"
    and "mappedValue st angle (- pi / 2 - pi / 6) = Some m"
  shows "min_k st < m \<and> m < max_k st"
proof -
  define u where "u = (if angle > maxRadians then angle else angle + 2 * pi)"
  have m: "m = mapRange u minRadians maxRadians (min_k st) (max_k st)"
    using assms(4) by (auto simp: mappedValue_def u_def split: if_splits)
  have ub: "maxRadians < u \<and> u < minRadians"
  proof (cases "angle > maxRadians")
    case True
    have "angle < minRadians" using assms(3) pi_gt_zero unfolding minRadians_def by linarith
    then show ?thesis using True by (simp add: u_def)
  next
    case False
    then have "angle < - pi / 2 - pi / 6"
      using assms(4) by (auto simp: mappedValue_def split: if_splits)
    then have "maxRadians < angle + 2 * pi" "angle + 2 * pi < minRadians"
      using assms(2) pi_gt_zero unfolding minRadians_def maxRadians_def by linarith+
    then show ?thesis using False by (simp add: u_def)
  qed
  define t where "t = (minRadians - u) / (5 * pi / 3)"
  have p: "0 < 5 * pi / 3" by simp
  have t0: "0 < t" using ub p by (simp add: t_def)
  have "minRadians - u < 5 * pi / 3" using ub unfolding minRadians_def maxRadians_def by linarith
  then have t1: "t < 1" using p by (simp add: t_def)
  have e: "m = min_k st + t * (max_k st - min_k st)"
    unfolding m t_def by (rule mapRange_angle)
  have d: "0 < max_k st - min_k st" using assms(1) by simp
  have "0 < t * (max_k st - min_k st)" using t0 d by simp
  moreover have "t * (max_k st - min_k st) < 1 * (max_k st - min_k st)"
    using t1 d by (intro mult_strict_right_mono)
  ultimately show ?thesis using e by simp
qed

lemma updateValue_bounds:
  assumes "min_k st < max_k st" and "0 < step st"
  shows "updateValue offsetX offsetY st = st \<or>
         (\<exists>w. value_k (updateValue offsetX offsetY st) = Some w \<and>
              min_k st \<le> w \<and> w < max_k st + step st / 2)"
proof -
  define a where "a = atan2 (size_k st / 2 - offsetY) (offsetX - size_k st / 2)"
  have uv: "updateValue offsetX offsetY st = updateModel a (- pi / 2 - pi / 6) st"
    by (simp only: updateValue_def Let_def a_def)
  show ?thesis
  proof (cases "mappedValue st a (- pi / 2 - pi / 6)")
    case None
    then have "updateModel a (- pi / 2 - pi / 6) st = st"
      by (simp only: updateModel_def option.case)
    then show ?thesis using uv by simp
  next
    case (Some m)
    define q where "q = (m - min_k st) / step st"
    have ar: "- pi \<le> a" "a \<le> pi" using atan2_range [of "size_k st / 2 - offsetY" "offsetX - size_k st / 2"]
      by (simp_all add: a_def)
    have mb: "min_k st < m \<and> m < max_k st"
      using assms(1) ar Some by (rule mappedValue_bounds)
    have q0: "0 \<le> q" using mb assms(2) by (simp add: q_def)
    then have "round (0 :: real) \<le> round q" by (rule round_mono)
    then have r0: "0 \<le> real_of_int (round q)" by simp
    have "real_of_int (round q) \<le> q + 1 / 2" by (rule of_int_round_le)
    then have "real_of_int (round q) * step st \<le> (q + 1 / 2) * step st"
      using assms(2) by (intro mult_right_mono) auto
    also have "\<dots> = m - min_k st + step st / 2"
      using assms(2) by (simp add: q_def field_simps)
    finally have up: "real_of_int (round q) * step st + min_k st < max_k st + step st / 2"
      using mb by simp
    have lo: "min_k st \<le> real_of_int (round q) * step st + min_k st"
      using r0 assms(2) by simp
    have "updateModel a (- pi / 2 - pi / 6) st
        = commit (real_of_int (round q) * step st + min_k st) st"
      by (simp only: updateModel_def Some option.case Let_def q_def)
    then have "value_k (updateValue offsetX offsetY st)
        = Some (real_of_int (round q) * step st + min_k st)"
      using uv by (simp add: commit_def emit_def)
    then show ?thesis using lo up by simp
  qed
qed

subsection \<open>The round trip\<close>







subsection \<open>The displayed text\<close>

lemma occurs_at_short: "length s < length pat \<Longrightarrow> \<not> occurs_at pat s i"
  by (auto simp: occurs_at_def)

lemma replace_first_absent:
  assumes "\<forall>i\<le>length s. \<not> occurs_at pat s i"
  shows "replace_first pat rep s = s"
  using assms
proof (induction s)
  case Nil
  then show ?case by (simp add: occurs_at_def)
next
  case (Cons c cs)
  have h0: "\<not> occurs_at pat (c # cs) 0" using Cons.prems by blast
  have "\<forall>i\<le>length cs. \<not> occurs_at pat cs i"
  proof (intro allI impI)
    fix i assume "i \<le> length cs"
    then have "\<not> occurs_at pat (c # cs) (Suc i)" using Cons.prems by simp
    then show "\<not> occurs_at pat cs i" by (simp add: occurs_at_def)
  qed
  then have "replace_first pat rep cs = cs" by (rule Cons.IH)
  then show ?case using h0 by (simp add: occurs_at_def)
qed

lemma replace_first_here: "replace_first pat rep (pat @ post) = rep @ post"
proof (cases "pat @ post")
  case Nil
  then show ?thesis by simp
next
  case (Cons a list)
  have "take (length pat) (a # list) = pat" and "drop (length pat) (a # list) = post"
    using Cons [symmetric] by simp_all
  then have "replace_first pat rep (a # list) = rep @ post" by simp
  then show ?thesis using Cons by simp
qed

lemma replace_first_first:
  assumes "\<forall>i<length pre. \<not> occurs_at pat (pre @ pat @ post) i"
  shows "replace_first pat rep (pre @ pat @ post) = pre @ rep @ post"
  using assms
proof (induction pre)
  case Nil
  show ?case using replace_first_here by simp
next
  case (Cons c cs)
  have h0: "\<not> occurs_at pat ((c # cs) @ pat @ post) 0" using Cons.prems by auto
  have "\<forall>i<length cs. \<not> occurs_at pat (cs @ pat @ post) i"
  proof (intro allI impI)
    fix i assume "i < length cs"
    then have "\<not> occurs_at pat ((c # cs) @ pat @ post) (Suc i)" using Cons.prems by simp
    then show "\<not> occurs_at pat (cs @ pat @ post) i" by (simp add: occurs_at_def)
  qed
  then have "replace_first pat rep (cs @ pat @ post) = cs @ rep @ post" by (rule Cons.IH)
  then show ?case using h0 by (simp add: occurs_at_def)
qed

text \<open>
  Claim C10: \<open>valueToDisplay\<close> replaces the first occurrence of \<open>{value}\<close> and no other.
  If the template is \<open>pre @ ''{value}'' @ post\<close> and the token does not occur at an index
  before the end of \<open>pre\<close>, the result is \<open>pre\<close>, the string of the effective value, and
  \<open>post\<close> as it is, with every later occurrence of the token in it; if the token occurs
  nowhere in the template, the result is the template. The string of a number has no \<open>$\<close>
  in it, so that \<open>replace\<close> inserts it literally.
\<close>

theorem valueToDisplay_first_occurrence:
  "(valueTemplate st = pre @ ''{value}'' @ post \<and>
      (\<forall>i<length pre. \<not> occurs_at ''{value}'' (valueTemplate st) i)
      \<longrightarrow> valueToDisplay toString st = pre @ toString (value_getter st) @ post) \<and>
   ((\<forall>i\<le>length (valueTemplate st). \<not> occurs_at ''{value}'' (valueTemplate st) i)
      \<longrightarrow> valueToDisplay toString st = valueTemplate st)"
proof (intro conjI impI)
  assume a: "valueTemplate st = pre @ ''{value}'' @ post \<and>
      (\<forall>i<length pre. \<not> occurs_at ''{value}'' (valueTemplate st) i)"
  then have e: "valueTemplate st = pre @ ''{value}'' @ post"
    and f: "\<forall>i<length pre. \<not> occurs_at ''{value}'' (valueTemplate st) i" by blast+
  from f have "\<forall>i<length pre. \<not> occurs_at ''{value}'' (pre @ ''{value}'' @ post) i"
    unfolding e .
  then have "replace_first ''{value}'' (toString (value_getter st)) (pre @ ''{value}'' @ post)
      = pre @ toString (value_getter st) @ post"
    by (rule replace_first_first)
  then show "valueToDisplay toString st = pre @ toString (value_getter st) @ post"
    unfolding valueToDisplay_def e .
next
  assume "\<forall>i\<le>length (valueTemplate st). \<not> occurs_at ''{value}'' (valueTemplate st) i"
  then show "valueToDisplay toString st = valueTemplate st"
    unfolding valueToDisplay_def by (rule replace_first_absent)
qed

theorem valueToDisplay_first_occurrence_witness:
  "valueTemplate (initial_knob\<lparr>valueTemplate := ''Val: {value}/{value}'', value_k := Some 42\<rparr>)
     = ''Val: '' @ ''{value}'' @ ''/{value}'' \<and>
   valueToDisplay (\<lambda>x. ''42'')
       (initial_knob\<lparr>valueTemplate := ''Val: {value}/{value}'', value_k := Some 42\<rparr>)
     = ''Val: 42/{value}'' \<and>
   valueToDisplay (\<lambda>x. ''42'') (initial_knob\<lparr>valueTemplate := ''Value'', value_k := Some 42\<rparr>)
     = ''Value''"
proof -
  let ?s1 = "initial_knob\<lparr>valueTemplate := ''Val: {value}/{value}'', value_k := Some 42\<rparr>"
  let ?s2 = "initial_knob\<lparr>valueTemplate := ''Value'', value_k := Some 42\<rparr>"
  have t1: "valueTemplate ?s1 = ''Val: '' @ ''{value}'' @ ''/{value}''"
    by simp
  have f1: "\<forall>i<length ''Val: ''. \<not> occurs_at ''{value}'' (valueTemplate ?s1) i"
    by (simp add: occurs_at_def less_Suc_eq numeral_eq_Suc)
  have f2: "\<forall>i\<le>length (valueTemplate ?s2). \<not> occurs_at ''{value}'' (valueTemplate ?s2) i"
    by (simp add: occurs_at_short)
  show ?thesis
    using valueToDisplay_first_occurrence [of ?s1 "''Val: ''" "''/{value}''" "\<lambda>x. ''42''"]
      valueToDisplay_first_occurrence [of ?s2 pre post "\<lambda>x. ''42''"] t1 f1 f2
    by simp
qed

end
